theory Spec2Isabelle
  imports Complex_Main
begin

section \<open>The Glosten--Milgrom simulation of \<^verbatim>\<open>Glosten_Milgrom_model.py\<close>\<close>

text \<open>
  The script works on Python numbers. They are read here as exact reals: \<open>+\<close>, \<open>-\<close>,
  \<open>*\<close> and \<open>/\<close> are the field operations, so the rounding of binary floating point is
  not part of the model (this is what the functions compute when they are called with
  exact rationals such as \<^verbatim>\<open>fractions.Fraction\<close>). A division whose divisor is zero
  raises \<^verbatim>\<open>ZeroDivisionError\<close> in Python; every such division is a branch of the model.
  The process-wide generator behind \<^verbatim>\<open>random.random()\<close> is passed explicitly: its state
  is the sequence of the numbers it will return from now on.
\<close>

subsection \<open>Errors and the random source\<close>

datatype error =
    ZeroDivisionError
  | ValueError

type_synonym rng = "nat \<Rightarrow> real"

text \<open>\<^verbatim>\<open>random.random()\<close>: the next number, and the generator after the call.\<close>

definition random_random :: "rng \<Rightarrow> real \<times> rng" where
  "random_random g = (g 0, \<lambda>k. g (Suc k))"


subsection \<open>Quotes\<close>

text \<open>
  \<^verbatim>\<open>PA = (V_L + V_H) / 2 + (V_H - V_L) * mu * delta / 2\<close>,
  \<^verbatim>\<open>PB = (V_L + V_H) / 2 - (V_H - V_L) * mu * delta / 2\<close>, returned as \<^verbatim>\<open>(PA, PB)\<close>.
\<close>

definition calculate_prices :: "real \<Rightarrow> real \<Rightarrow> real \<Rightarrow> real \<Rightarrow> real \<times> real" where
  "calculate_prices V_L V_H delta mu =
     (let PA = (V_L + V_H) / 2 + (V_H - V_L) * mu * delta / 2;
          PB = (V_L + V_H) / 2 - (V_H - V_L) * mu * delta / 2
      in (PA, PB))"

subsection \<open>Belief updates\<close>

text \<open>
  \<^verbatim>\<open>return (delta * (1 - mu)) / (1 + mu * (1 - 2 * delta))\<close>. The source has no check
  of its own: the only failure is the division by zero.
\<close>

definition update_delta_buy :: "real \<Rightarrow> real \<Rightarrow> error + real" where
  "update_delta_buy delta mu =
     (if 1 + mu * (1 - 2 * delta) = 0 then Inl ZeroDivisionError
      else Inr ((delta * (1 - mu)) / (1 + mu * (1 - 2 * delta))))"

text \<open>\<^verbatim>\<open>return (delta * (1 + mu)) / (1 - mu * (1 - 2 * delta))\<close>.\<close>

definition update_delta_sell :: "real \<Rightarrow> real \<Rightarrow> error + real" where
  "update_delta_sell delta mu =
     (if 1 - mu * (1 - 2 * delta) = 0 then Inl ZeroDivisionError
      else Inr ((delta * (1 + mu)) / (1 - mu * (1 - 2 * delta))))"

subsection \<open>One path\<close>

text \<open>
  The local variables of \<^verbatim>\<open>simulate_model\<close> that live across iterations: the five
  histories, the current belief \<^verbatim>\<open>delta\<close> and the current \<^verbatim>\<open>spread\<close>.
\<close>

record sim_state =
  spread_history :: "real list"
  delta_history :: "real list"
  asset_price_history :: "real list"
  ask_history :: "real list"
  bid_history :: "real list"
  cur_delta :: real
  cur_spread :: real

text \<open>The two draws of an iteration, as the source writes them.\<close>

definition draw_trader_type :: "real \<Rightarrow> real \<Rightarrow> string" where
  "draw_trader_type r mu = (if r < mu then ''informed'' else ''uninformed'')"

definition draw_true_value :: "real \<Rightarrow> real \<Rightarrow> real \<Rightarrow> real \<Rightarrow> real" where
  "draw_true_value r delta V_L V_H = (if r < delta then V_L else V_H)"

text \<open>
  The belief after the trade: an informed trader buys when \<^verbatim>\<open>true_value == V_H\<close> and
  sells otherwise; any other trader leaves \<^verbatim>\<open>delta\<close> as it is.
\<close>

definition trade_update :: "string \<Rightarrow> real \<Rightarrow> real \<Rightarrow> real \<Rightarrow> real \<Rightarrow> error + real" where
  "trade_update trader_type true_value V_H delta mu =
     (if trader_type = ''informed'' then
        (if true_value = V_H then update_delta_buy delta mu
         else update_delta_sell delta mu)
      else Inr delta)"

text \<open>
  The body of \<^verbatim>\<open>for _ in range(n_tiks)\<close>, in the order of the source: draw the trader
  type, draw the true value from the current belief and append it, quote and append ask
  and bid, update the belief, then compute the spread from the new belief and append
  spread and belief. An exception of the update leaves the function, so nothing of the
  interrupted iteration is returned.
\<close>

definition tick :: "real \<Rightarrow> real \<Rightarrow> real \<Rightarrow> sim_state \<times> rng \<Rightarrow> error + sim_state \<times> rng" where
  "tick mu V_L V_H sg =
     (let (s, g) = sg;
          (r1, g1) = random_random g;
          trader_type = draw_trader_type r1 mu;
          (r2, g2) = random_random g1;
          true_value = draw_true_value r2 (cur_delta s) V_L V_H;
          (PA, PB) = calculate_prices V_L V_H (cur_delta s) mu
      in case trade_update trader_type true_value V_H (cur_delta s) mu of
           Inl e \<Rightarrow> Inl e
         | Inr delta' \<Rightarrow>
             (let spread = mu * (V_H - V_L) * delta' * (1 - delta')
              in Inr (s\<lparr>asset_price_history := asset_price_history s @ [true_value],
                        ask_history := ask_history s @ [PA],
                        bid_history := bid_history s @ [PB],
                        cur_delta := delta',
                        cur_spread := spread,
                        spread_history := spread_history s @ [spread],
                        delta_history := delta_history s @ [delta']\<rparr>, g2)))"

fun for_ticks :: "nat \<Rightarrow> real \<Rightarrow> real \<Rightarrow> real \<Rightarrow> sim_state \<times> rng \<Rightarrow> error + sim_state \<times> rng" where
  "for_ticks 0 mu V_L V_H sg = Inr sg"
| "for_ticks (Suc n) mu V_L V_H sg =
     (case tick mu V_L V_H sg of
        Inl e \<Rightarrow> Inl e
      | Inr sg' \<Rightarrow> for_ticks n mu V_L V_H sg')"

text \<open>The state before the loop: \<^verbatim>\<open>delta_history = [delta]\<close>, \<^verbatim>\<open>spread = mu * (V_H - V_L)\<close>.\<close>

definition init_state :: "real \<Rightarrow> real \<Rightarrow> real \<Rightarrow> real \<Rightarrow> sim_state" where
  "init_state delta mu V_L V_H =
     \<lparr>spread_history = [], delta_history = [delta], asset_price_history = [],
      ask_history = [], bid_history = [], cur_delta = delta,
      cur_spread = mu * (V_H - V_L)\<rparr>"

type_synonym histories = "real list \<times> real list \<times> real list \<times> real list \<times> real list"

text \<open>
  \<^verbatim>\<open>simulate_model(delta, mu, V_L, V_H, n_tiks)\<close>; \<^verbatim>\<open>range\<close> of a number that is not
  positive is empty. The result is the tuple of the source, with the generator after
  the run.
\<close>

definition simulate_model ::
  "real \<Rightarrow> real \<Rightarrow> real \<Rightarrow> real \<Rightarrow> int \<Rightarrow> rng \<Rightarrow> error + histories \<times> rng" where
  "simulate_model delta mu V_L V_H n_tiks g =
     (case for_ticks (nat n_tiks) mu V_L V_H (init_state delta mu V_L V_H, g) of
        Inl e \<Rightarrow> Inl e
      | Inr (s, g') \<Rightarrow>
          Inr ((spread_history s, delta_history s, asset_price_history s,
                ask_history s, bid_history s), g'))"

subsection \<open>Monte Carlo replications and their averages\<close>









subsection \<open>Invariants of the replication loop\<close>



section \<open>Arithmetic of the two update formulas\<close>















section \<open>Quotes: symmetry and order\<close>




section \<open>Belief updates: failure, direction, boundaries\<close>






text \<open>
  C7, as the code has it. For every \<open>mu\<close> in \<open>[0, 1]\<close>, \<open>update_delta_buy 0 mu = 0\<close> and
  \<open>update_delta_sell 1 mu = 1\<close>; for \<open>mu < 1\<close> also \<open>update_delta_buy 1 mu = 1\<close> and
  \<open>update_delta_sell 0 mu = 0\<close>. At \<open>mu = 1\<close> these last two are \<open>0 / 0\<close> and raise
  \<^verbatim>\<open>ZeroDivisionError\<close>.
\<close>

theorem update_delta_boundaries:
  assumes "0 \<le> mu" "mu \<le> 1"
  shows "update_delta_buy 0 mu = Inr 0 \<and> update_delta_sell 1 mu = Inr 1
       \<and> (mu < 1 \<longrightarrow> update_delta_buy 1 mu = Inr 1 \<and> update_delta_sell 0 mu = Inr 0)
       \<and> (mu = 1 \<longrightarrow> update_delta_buy 1 mu = Inl ZeroDivisionError
                    \<and> update_delta_sell 0 mu = Inl ZeroDivisionError)"
  using assms by (auto simp: update_delta_buy_def update_delta_sell_def)

theorem update_delta_boundaries_witness:
  "(0::real) \<le> 1/5 \<and> (1/5::real) \<le> 1
   \<and> update_delta_buy 0 (1/5) = Inr 0 \<and> update_delta_sell 1 (1/5) = Inr 1
   \<and> update_delta_buy 1 (1/5) = Inr 1 \<and> update_delta_sell 0 (1/5) = Inr 0
   \<and> update_delta_buy 0 1 = Inr 0 \<and> update_delta_sell 1 1 = Inr 1"
proof -
  have h: "(0::real) \<le> 1/5" "(1/5::real) \<le> 1" by simp_all
  have k: "(0::real) \<le> 1" "(1::real) \<le> 1" by simp_all
  note t = update_delta_boundaries [OF h]
  note u = update_delta_boundaries [OF k]
  have 1: "update_delta_buy 0 (1/5) = Inr 0" "update_delta_sell 1 (1/5) = Inr 1"
    "update_delta_buy 1 (1/5) = Inr 1" "update_delta_sell 0 (1/5) = Inr 0"
    using t by simp_all
  have 2: "update_delta_buy 0 1 = Inr 0" "update_delta_sell 1 1 = Inr 1"
    using u by simp_all
  show ?thesis by (intro conjI h 1 2)
qed

text \<open>
  The claim as it is written covers \<open>mu = 1\<close>, where two of the four identities fail.
\<close>

theorem update_delta_boundary_counterexample:
  "update_delta_buy 1 1 = Inl ZeroDivisionError \<and> update_delta_sell 0 1 = Inl ZeroDivisionError"
  by (simp add: update_delta_buy_def update_delta_sell_def)

section \<open>One tick and one path\<close>

text \<open>
  The loop body written out, what a successful tick appends, and from there the whole
  content of the five histories that a successful run returns: entry \<open>i\<close> of each
  history in terms of the beliefs \<open>dh ! i\<close> (before tick \<open>i\<close>) and \<open>dh ! Suc i\<close>
  (after it) and of the draws \<open>g (2 * i)\<close> and \<open>g (2 * i + 1)\<close> of that tick.
\<close>

lemma tick_eq:
  "tick mu V_L V_H (s, g) =
     (case trade_update (draw_trader_type (g 0) mu)
             (draw_true_value (g 1) (cur_delta s) V_L V_H) V_H (cur_delta s) mu of
        Inl e \<Rightarrow> Inl e
      | Inr d \<Rightarrow>
          Inr (s\<lparr>asset_price_history :=
                    asset_price_history s @ [draw_true_value (g 1) (cur_delta s) V_L V_H],
                  ask_history := ask_history s @ [fst (calculate_prices V_L V_H (cur_delta s) mu)],
                  bid_history := bid_history s @ [snd (calculate_prices V_L V_H (cur_delta s) mu)],
                  cur_delta := d,
                  cur_spread := mu * (V_H - V_L) * d * (1 - d),
                  spread_history := spread_history s @ [mu * (V_H - V_L) * d * (1 - d)],
                  delta_history := delta_history s @ [d]\<rparr>,
               \<lambda>k. g (Suc (Suc k))))"
  by (simp add: tick_def random_random_def Let_def split: prod.splits sum.splits)

lemma tick_InrD:
  assumes "tick mu V_L V_H (s, g) = Inr (s1, g1)"
  shows "trade_update (draw_trader_type (g 0) mu)
           (draw_true_value (g 1) (cur_delta s) V_L V_H) V_H (cur_delta s) mu = Inr (cur_delta s1)"
    and "delta_history s1 = delta_history s @ [cur_delta s1]"
    and "spread_history s1 =
           spread_history s @ [mu * (V_H - V_L) * cur_delta s1 * (1 - cur_delta s1)]"
    and "asset_price_history s1 =
           asset_price_history s @ [draw_true_value (g 1) (cur_delta s) V_L V_H]"
    and "ask_history s1 = ask_history s @ [fst (calculate_prices V_L V_H (cur_delta s) mu)]"
    and "bid_history s1 = bid_history s @ [snd (calculate_prices V_L V_H (cur_delta s) mu)]"
    and "g1 = (\<lambda>k. g (Suc (Suc k)))"
  using assms by (auto simp: tick_eq split: sum.splits)

lemma tick_belief:
  "map_sum id (\<lambda>(s', g'). cur_delta s') (tick mu V_L V_H (s, g)) =
     trade_update (draw_trader_type (g 0) mu) (draw_true_value (g 1) (cur_delta s) V_L V_H)
       V_H (cur_delta s) mu"
  by (simp add: tick_eq split: sum.splits)

lemma for_ticks_trace:
  assumes "for_ticks n mu V_L V_H (s, g) = Inr (s', g')"
  shows "\<exists>ds. length ds = n
      \<and> delta_history s' = delta_history s @ ds
      \<and> cur_delta s' = last (cur_delta s # ds)
      \<and> spread_history s' = spread_history s @ map (\<lambda>d. mu * (V_H - V_L) * d * (1 - d)) ds
      \<and> asset_price_history s' = asset_price_history s
            @ map (\<lambda>i. draw_true_value (g (2 * i + 1)) ((cur_delta s # ds) ! i) V_L V_H) [0..<n]
      \<and> ask_history s' = ask_history s
            @ map (\<lambda>i. fst (calculate_prices V_L V_H ((cur_delta s # ds) ! i) mu)) [0..<n]
      \<and> bid_history s' = bid_history s
            @ map (\<lambda>i. snd (calculate_prices V_L V_H ((cur_delta s # ds) ! i) mu)) [0..<n]
      \<and> (\<forall>i<n. trade_update (draw_trader_type (g (2 * i)) mu)
                   (draw_true_value (g (2 * i + 1)) ((cur_delta s # ds) ! i) V_L V_H) V_H
                   ((cur_delta s # ds) ! i) mu = Inr (ds ! i))
      \<and> g' = (\<lambda>k. g (k + 2 * n))"
  using assms
proof (induction n arbitrary: s g)
  case 0
  then show ?case by simp
next
  case (Suc n)
  from Suc.prems obtain s1 g1 where t: "tick mu V_L V_H (s, g) = Inr (s1, g1)"
    and r: "for_ticks n mu V_L V_H (s1, g1) = Inr (s', g')"
    by (auto split: sum.splits)
  note T = tick_InrD [OF t]
  from Suc.IH [OF r] obtain ds where
    l: "length ds = n" and
    dh: "delta_history s' = delta_history s1 @ ds" and
    cd: "cur_delta s' = last (cur_delta s1 # ds)" and
    sh: "spread_history s' = spread_history s1 @ map (\<lambda>d. mu * (V_H - V_L) * d * (1 - d)) ds" and
    ap: "asset_price_history s' = asset_price_history s1
            @ map (\<lambda>i. draw_true_value (g1 (2 * i + 1)) ((cur_delta s1 # ds) ! i) V_L V_H) [0..<n]" and
    ah: "ask_history s' = ask_history s1
            @ map (\<lambda>i. fst (calculate_prices V_L V_H ((cur_delta s1 # ds) ! i) mu)) [0..<n]" and
    bh: "bid_history s' = bid_history s1
            @ map (\<lambda>i. snd (calculate_prices V_L V_H ((cur_delta s1 # ds) ! i) mu)) [0..<n]" and
    tu: "\<forall>i<n. trade_update (draw_trader_type (g1 (2 * i)) mu)
                   (draw_true_value (g1 (2 * i + 1)) ((cur_delta s1 # ds) ! i) V_L V_H) V_H
                   ((cur_delta s1 # ds) ! i) mu = Inr (ds ! i)" and
    g': "g' = (\<lambda>k. g1 (k + 2 * n))"
    by blast
  let ?ds = "cur_delta s1 # ds"
  have 1: "length ?ds = Suc n" using l by simp
  have 2: "delta_history s' = delta_history s @ ?ds" using dh T(2) by simp
  have 3: "cur_delta s' = last (cur_delta s # ?ds)" using cd by simp
  have 4: "spread_history s' = spread_history s @ map (\<lambda>d. mu * (V_H - V_L) * d * (1 - d)) ?ds"
    using sh T(3) by simp
  have 5: "asset_price_history s' = asset_price_history s
            @ map (\<lambda>i. draw_true_value (g (2 * i + 1)) ((cur_delta s # ?ds) ! i) V_L V_H) [0..<Suc n]"
    using ap T(4) T(7) by (simp add: map_upt_Suc del: upt_Suc)
  have 6: "ask_history s' = ask_history s
            @ map (\<lambda>i. fst (calculate_prices V_L V_H ((cur_delta s # ?ds) ! i) mu)) [0..<Suc n]"
    using ah T(5) by (simp add: map_upt_Suc del: upt_Suc)
  have 7: "bid_history s' = bid_history s
            @ map (\<lambda>i. snd (calculate_prices V_L V_H ((cur_delta s # ?ds) ! i) mu)) [0..<Suc n]"
    using bh T(6) by (simp add: map_upt_Suc del: upt_Suc)
  have 8: "\<forall>i<Suc n. trade_update (draw_trader_type (g (2 * i)) mu)
                   (draw_true_value (g (2 * i + 1)) ((cur_delta s # ?ds) ! i) V_L V_H) V_H
                   ((cur_delta s # ?ds) ! i) mu = Inr (?ds ! i)"
    using tu T(1) T(7) by (simp add: All_less_Suc2)
  have 9: "g' = (\<lambda>k. g (k + 2 * Suc n))" using g' T(7) by simp
  show ?case
    using 1 2 3 4 5 6 7 8 9 by blast
qed

lemma simulate_model_trace:
  assumes "simulate_model delta mu V_L V_H n_tiks g = Inr ((sp, dh, ap, ah, bh), g')"
  shows "length dh = Suc (nat n_tiks)" and "dh ! 0 = delta"
    and "length sp = nat n_tiks" and "length ap = nat n_tiks"
    and "length ah = nat n_tiks" and "length bh = nat n_tiks"
    and "\<And>i. i < nat n_tiks \<Longrightarrow> sp ! i = mu * (V_H - V_L) * dh ! Suc i * (1 - dh ! Suc i)"
    and "\<And>i. i < nat n_tiks \<Longrightarrow> ap ! i = draw_true_value (g (2 * i + 1)) (dh ! i) V_L V_H"
    and "\<And>i. i < nat n_tiks \<Longrightarrow> ah ! i = fst (calculate_prices V_L V_H (dh ! i) mu)"
    and "\<And>i. i < nat n_tiks \<Longrightarrow> bh ! i = snd (calculate_prices V_L V_H (dh ! i) mu)"
    and "\<And>i. i < nat n_tiks \<Longrightarrow>
           trade_update (draw_trader_type (g (2 * i)) mu) (ap ! i) V_H (dh ! i) mu = Inr (dh ! Suc i)"
    and "g' = (\<lambda>k. g (k + 2 * nat n_tiks))"
proof -
  from assms obtain s' where
    f: "for_ticks (nat n_tiks) mu V_L V_H (init_state delta mu V_L V_H, g) = Inr (s', g')"
    and h: "sp = spread_history s'" "dh = delta_history s'" "ap = asset_price_history s'"
      "ah = ask_history s'" "bh = bid_history s'"
    by (auto simp: simulate_model_def split: sum.splits prod.splits)
  from for_ticks_trace [OF f] obtain ds where
    l: "length ds = nat n_tiks" and
    d: "dh = delta # ds" and
    s: "sp = map (\<lambda>d. mu * (V_H - V_L) * d * (1 - d)) ds" and
    a: "ap = map (\<lambda>i. draw_true_value (g (2 * i + 1)) ((delta # ds) ! i) V_L V_H) [0..<nat n_tiks]" and
    k: "ah = map (\<lambda>i. fst (calculate_prices V_L V_H ((delta # ds) ! i) mu)) [0..<nat n_tiks]" and
    b: "bh = map (\<lambda>i. snd (calculate_prices V_L V_H ((delta # ds) ! i) mu)) [0..<nat n_tiks]" and
    t: "\<forall>i<nat n_tiks. trade_update (draw_trader_type (g (2 * i)) mu)
                   (draw_true_value (g (2 * i + 1)) ((delta # ds) ! i) V_L V_H) V_H
                   ((delta # ds) ! i) mu = Inr (ds ! i)" and
    g: "g' = (\<lambda>k. g (k + 2 * nat n_tiks))"
    unfolding h by (auto simp: init_state_def)
  show "length dh = Suc (nat n_tiks)" "dh ! 0 = delta" using d l by simp_all
  show "length sp = nat n_tiks" "length ap = nat n_tiks" "length ah = nat n_tiks"
    "length bh = nat n_tiks" using s a k b l by simp_all
  show "g' = (\<lambda>k. g (k + 2 * nat n_tiks))" by (rule g)
  fix i assume i: "i < nat n_tiks"
  show "sp ! i = mu * (V_H - V_L) * dh ! Suc i * (1 - dh ! Suc i)"
    using i l by (simp add: s d)
  show A: "ap ! i = draw_true_value (g (2 * i + 1)) (dh ! i) V_L V_H"
    using i by (simp add: a d)
  show "ah ! i = fst (calculate_prices V_L V_H (dh ! i) mu)" using i by (simp add: k d)
  show "bh ! i = snd (calculate_prices V_L V_H (dh ! i) mu)" using i by (simp add: b d)
  show "trade_update (draw_trader_type (g (2 * i)) mu) (ap ! i) V_H (dh ! i) mu = Inr (dh ! Suc i)"
    using t i unfolding A by (simp add: d)
qed

text \<open>
  Two runs evaluated: two ticks from the script's parameters (an informed buy, then an
  uninformed trade), and one tick with an informed sell.
\<close>

lemma simulate_model_two_ticks:
  "simulate_model (1/2) (1/5) 99 101 2 (\<lambda>k. if k = 0 then 1/10 else 3/5) =
     Inr (([12/125, 12/125], [1/2, 2/5, 2/5], [101, 101], [1001/10, 2502/25], [999/10, 2498/25]),
          \<lambda>k. 3/5)"
  apply (simp add: simulate_model_def init_state_def numeral_2_eq_2 tick_eq draw_trader_type_def
      draw_true_value_def trade_update_def update_delta_buy_def update_delta_sell_def
      calculate_prices_def Let_def)
  done



text \<open>
  C2. With \<open>V_L \<noteq> V_H\<close>, the belief after a tick is \<open>update_delta_buy\<close> of the belief
  before it when the trader drawn is informed and the value drawn is \<open>V_H\<close>,
  \<open>update_delta_sell\<close> of it when the trader is informed and the value is \<open>V_L\<close>, and
  the belief before it when the trader is uninformed. This is stated for the loop body
  at any state (an update that raises makes the tick raise the same error), and for
  every tick \<open>i\<close> of the histories of a run that returns.
\<close>

theorem belief_after_tick:
  assumes "V_L \<noteq> V_H"
  shows "(draw_trader_type (g 0) mu = ''informed''
            \<and> draw_true_value (g 1) (cur_delta s) V_L V_H = V_H \<longrightarrow>
          map_sum id (\<lambda>(s', g'). cur_delta s') (tick mu V_L V_H (s, g))
            = update_delta_buy (cur_delta s) mu)
       \<and> (draw_trader_type (g 0) mu = ''informed''
            \<and> draw_true_value (g 1) (cur_delta s) V_L V_H = V_L \<longrightarrow>
          map_sum id (\<lambda>(s', g'). cur_delta s') (tick mu V_L V_H (s, g))
            = update_delta_sell (cur_delta s) mu)
       \<and> (draw_trader_type (g 0) mu = ''uninformed'' \<longrightarrow>
          map_sum id (\<lambda>(s', g'). cur_delta s') (tick mu V_L V_H (s, g)) = Inr (cur_delta s))
       \<and> (\<forall>sp dh ap ah bh g' i.
            simulate_model delta mu V_L V_H n_tiks g = Inr ((sp, dh, ap, ah, bh), g')
              \<and> i < nat n_tiks \<longrightarrow>
            ap ! i = draw_true_value (g (2 * i + 1)) (dh ! i) V_L V_H
          \<and> (draw_trader_type (g (2 * i)) mu = ''informed'' \<and> ap ! i = V_H \<longrightarrow>
               update_delta_buy (dh ! i) mu = Inr (dh ! Suc i))
          \<and> (draw_trader_type (g (2 * i)) mu = ''informed'' \<and> ap ! i = V_L \<longrightarrow>
               update_delta_sell (dh ! i) mu = Inr (dh ! Suc i))
          \<and> (draw_trader_type (g (2 * i)) mu = ''uninformed'' \<longrightarrow> dh ! Suc i = dh ! i))"
proof -
  have a: "map_sum id (\<lambda>(s', g'). cur_delta s') (tick mu V_L V_H (s, g))
            = update_delta_buy (cur_delta s) mu"
    if "draw_trader_type (g 0) mu = ''informed''
        \<and> draw_true_value (g 1) (cur_delta s) V_L V_H = V_H"
    using that by (simp add: tick_belief trade_update_def)
  have b: "map_sum id (\<lambda>(s', g'). cur_delta s') (tick mu V_L V_H (s, g))
            = update_delta_sell (cur_delta s) mu"
    if "draw_trader_type (g 0) mu = ''informed''
        \<and> draw_true_value (g 1) (cur_delta s) V_L V_H = V_L"
    using that assms by (simp add: tick_belief trade_update_def)
  have c: "map_sum id (\<lambda>(s', g'). cur_delta s') (tick mu V_L V_H (s, g)) = Inr (cur_delta s)"
    if "draw_trader_type (g 0) mu = ''uninformed''"
    using that by (simp add: tick_belief trade_update_def)
  have d: "ap ! i = draw_true_value (g (2 * i + 1)) (dh ! i) V_L V_H
          \<and> (draw_trader_type (g (2 * i)) mu = ''informed'' \<and> ap ! i = V_H \<longrightarrow>
               update_delta_buy (dh ! i) mu = Inr (dh ! Suc i))
          \<and> (draw_trader_type (g (2 * i)) mu = ''informed'' \<and> ap ! i = V_L \<longrightarrow>
               update_delta_sell (dh ! i) mu = Inr (dh ! Suc i))
          \<and> (draw_trader_type (g (2 * i)) mu = ''uninformed'' \<longrightarrow> dh ! Suc i = dh ! i)"
    if r: "simulate_model delta mu V_L V_H n_tiks g = Inr ((sp, dh, ap, ah, bh), g')"
      and i: "i < nat n_tiks"
    for sp dh ap ah bh g' i
  proof -
    note T = simulate_model_trace [OF r]
    have u: "trade_update (draw_trader_type (g (2 * i)) mu) (ap ! i) V_H (dh ! i) mu
               = Inr (dh ! Suc i)"
      by (rule T(11) [OF i])
    show ?thesis
      using u T(8) [OF i] assms by (auto simp: trade_update_def)
  qed
  show ?thesis
    using a b c d by blast
qed

theorem belief_after_tick_witness:
  "(99::real) \<noteq> 101
   \<and> simulate_model (1/2) (1/5) 99 101 2 (\<lambda>k. if k = 0 then 1/10 else 3/5) =
       Inr (([12/125, 12/125], [1/2, 2/5, 2/5], [101, 101], [1001/10, 2502/25], [999/10, 2498/25]),
            \<lambda>k. 3/5)
   \<and> draw_trader_type (if 2 * (0::nat) = 0 then 1/10 else 3/5) (1/5) = ''informed''
   \<and> [101, 101] ! 0 = (101::real)
   \<and> update_delta_buy ([1/2, 2/5, 2/5] ! 0) (1/5) = Inr ([1/2, 2/5, 2/5] ! Suc 0)
   \<and> draw_trader_type (if 2 * (1::nat) = 0 then 1/10 else 3/5) (1/5) = ''uninformed''
   \<and> [1/2, 2/5, 2/5] ! Suc 1 = ([1/2, 2/5, 2/5] ! 1 :: real)
   \<and> map_sum id (\<lambda>(s', g'). cur_delta s')
        (tick (1/5) 99 101 (init_state (1/2) (1/5) 99 101, \<lambda>k. if k = 0 then 1/10 else 3/5))
       = update_delta_buy (1/2) (1/5)"
proof -
  let ?g = "\<lambda>k::nat. if k = 0 then 1/10 else (3/5::real)"
  have a: "(99::real) \<noteq> 101" by simp
  note t = belief_after_tick [OF a, of ?g "1/5" "init_state (1/2) (1/5) 99 101" "1/2" 2]
  note p = t [THEN conjunct2, THEN conjunct2, THEN conjunct2, rule_format,
      OF conjI, OF simulate_model_two_ticks]
  have i0: "(0::nat) < nat 2" and i1: "(1::nat) < nat 2" by simp_all
  have ti: "draw_trader_type (if 2 * (0::nat) = 0 then 1/10 else 3/5) (1/5) = ''informed''"
    and tu: "draw_trader_type (if 2 * (1::nat) = 0 then 1/10 else 3/5) (1/5) = ''uninformed''"
    by (simp_all add: draw_trader_type_def)
  have v: "[101, 101] ! 0 = (101::real)" by simp
  have b: "update_delta_buy ([1/2, 2/5, 2/5] ! 0) (1/5) = Inr ([1/2, 2/5, 2/5] ! Suc 0)"
    using p [OF i0] ti v by blast
  have u: "[1/2, 2/5, 2/5] ! Suc 1 = ([1/2, 2/5, 2/5] ! 1 :: real)"
    using p [OF i1] tu by blast
  have k: "map_sum id (\<lambda>(s', g'). cur_delta s')
        (tick (1/5) 99 101 (init_state (1/2) (1/5) 99 101, ?g))
       = update_delta_buy (1/2) (1/5)"
    using t [THEN conjunct1]
    by (simp add: draw_trader_type_def draw_true_value_def init_state_def)
  show ?thesis
    by (intro conjI a simulate_model_two_ticks ti v b tu u k)
qed




subsection \<open>Beliefs stay in the unit interval\<close>





subsection \<open>Runs with valid parameters return\<close>







section \<open>The averages over the replications\<close>











end
